theory Spec2Isabelle
  imports Complex_Main
begin

section \<open>Data model of the coexistence simulator\<close>

text \<open>
  The simulator (\<^verbatim>\<open>coexistanceSimpy/Coexistence.py\<close>) lets Wi-Fi stations and NR-U gNBs
  contend for one channel. Objects are modelled as records and every method as a function
  that takes the object and the channel and returns both updated. Simulated time
  (\<^verbatim>\<open>env.now\<close>) is passed in as an integer. Counters that start at zero and are only
  ever incremented or reset to zero are naturals; every other Python integer is an
  \<^typ>\<open>int\<close>. Calls of \<^verbatim>\<open>log\<close> have no effect on the state and are left out.
\<close>

datatype py_error = ValueError | KeyError | ZeroDivisionError | AssertionError | AttributeError

text \<open>\<^verbatim>\<open>Config\<close> (Wi-Fi) and \<^verbatim>\<open>Config_NR\<close> (NR-U), with the field defaults of the dataclasses.\<close>

record config =
  data_size :: int
  cw_min :: int
  cw_max :: int
  r_limit :: int
  mcs :: int

definition Config :: config where
  "Config = \<lparr>data_size = 1472, cw_min = 15, cw_max = 63, r_limit = 7, mcs = 7\<rparr>"

record config_nr =
  deter_period :: int
  observation_slot_duration :: int
  synchronization_slot_duration :: int
  max_sync_slot_desync :: int
  min_sync_slot_desync :: int
  nr_M :: int
  nr_cw_min :: int
  nr_cw_max :: int
  mcot :: int

definition Config_NR :: config_nr where
  "Config_NR = \<lparr>deter_period = 16, observation_slot_duration = 9,
     synchronization_slot_duration = 1000, max_sync_slot_desync = 1000,
     min_sync_slot_desync = 0, nr_M = 3, nr_cw_min = 15, nr_cw_max = 63, mcot = 6\<rparr>"

text \<open>
  The module \<^verbatim>\<open>Times\<close> is imported by the simulator but is not part of the sources at
  hand; the constants read from it are fields of a record that every station carries.
\<close>

record times =
  t_slot :: int
  t_difs :: int
  ack_timeout :: int
  ack_frame_time :: int

record packet =
  p_id :: int
  gen_time :: int
  payload_size :: int

record frame =
  frame_time :: int
  station_name :: string
  f_col :: string
  f_data_size :: int
  f_t_start :: int
  f_number_of_retransmissions :: nat
  f_t_end :: "int option"
  f_t_to_send :: "int option"
  f_packet_gen_time :: int
  f_packet_size :: int

record transmission_nr =
  transmission_time :: int
  enb_name :: string
  t_col :: string
  t_t_start :: int
  airtime :: int
  rs_time :: int
  t_number_of_retransmissions :: nat
  t_t_end :: "int option"
  t_t_to_send :: "int option"
  collided :: bool
  t_packet_gen_time :: int
  t_packet_size :: int

record station =
  s_config :: config
  s_times :: times
  s_name :: string
  s_col :: string
  frame_to_send :: "frame option"
  s_succeeded_transmissions :: nat
  s_failed_transmissions :: nat
  s_failed_transmissions_in_row :: nat
  s_cw_min :: int
  s_cw_max :: int
  s_first_interrupt :: bool
  s_back_off_time :: int
  s_start :: int
  s_total_latency :: int
  s_packet_count :: nat
  s_transmit_power_dbm :: int
  next_packet_id :: int
  packet_queue :: "packet list"
  s_is_transmitting :: bool

record gnb =
  g_config_nr :: config_nr
  g_name :: string
  g_col :: string
  transmission_to_send :: "transmission_nr option"
  g_succeeded_transmissions :: nat
  g_failed_transmissions :: nat
  g_failed_transmissions_in_row :: nat
  g_cw_min :: int
  g_cw_max :: int
  desync :: int
  next_sync_slot_boundry :: int
  desync_done :: bool
  g_first_interrupt :: bool
  g_back_off_time :: int
  time_to_next_sync_slot :: int
  waiting_backoff :: bool
  start_nr :: int
  g_total_latency :: int
  g_packet_count :: nat
  g_transmit_power_dbm :: int
  g_is_transmitting :: bool

text \<open>
  The channel. The lists of transmitting nodes hold the nodes' names (the source holds the
  objects; only membership and length are read). \<^verbatim>\<open>stations\<close> and \<^verbatim>\<open>gnbs\<close> are the
  registries through which the controller reaches every node.
\<close>

record channel =
  n_of_stations :: int
  n_of_eNB :: int
  backoffs :: "int \<rightharpoonup> (int \<rightharpoonup> int)"
  airtime_data :: "string \<rightharpoonup> int"
  airtime_control :: "string \<rightharpoonup> int"
  airtime_data_NR :: "string \<rightharpoonup> int"
  airtime_control_NR :: "string \<rightharpoonup> int"
  tx_list :: "string list"
  back_off_list :: "string list"
  tx_list_NR :: "string list"
  back_off_list_NR :: "string list"
  stations :: "string \<rightharpoonup> station"
  gnbs :: "string \<rightharpoonup> gnb"
  failed_transmissions :: nat
  succeeded_transmissions :: nat
  bytes_sent :: int
  failed_transmissions_NR :: nat
  succeeded_transmissions_NR :: nat

section \<open>Wi-Fi station: outcome of a transmission\<close>

text \<open>\<^verbatim>\<open>Station.generate_new_frame\<close>: the frame length is the constant 5400.\<close>

definition Station_generate_new_frame :: "int \<Rightarrow> station \<Rightarrow> frame" where
  "Station_generate_new_frame now s =
     \<lparr>frame_time = 5400, station_name = s_name s, f_col = s_col s,
      f_data_size = data_size (s_config s), f_t_start = now,
      f_number_of_retransmissions = 0, f_t_end = None, f_t_to_send = None,
      f_packet_gen_time = - 1, f_packet_size = 1472\<rparr>"

text \<open>
  \<^verbatim>\<open>Station.sent_failed\<close>. Reading a field of \<^verbatim>\<open>frame_to_send\<close> while it is still
  \<^verbatim>\<open>None\<close> raises.
\<close>

definition Station_sent_failed :: "int \<Rightarrow> station \<Rightarrow> channel \<Rightarrow> py_error + station \<times> channel" where
  "Station_sent_failed now s ch =
     (case frame_to_send s of
        None \<Rightarrow> Inl AttributeError
      | Some f \<Rightarrow>
          let f1 = f\<lparr>f_number_of_retransmissions := f_number_of_retransmissions f + 1\<rparr>;
              ch1 = ch\<lparr>failed_transmissions := failed_transmissions ch + 1\<rparr>;
              s1 = s\<lparr>frame_to_send := Some f1,
                     s_failed_transmissions := s_failed_transmissions s + 1,
                     s_failed_transmissions_in_row := s_failed_transmissions_in_row s + 1\<rparr>
          in if int (f_number_of_retransmissions f1) > r_limit (s_config s1)
             then Inr (s1\<lparr>frame_to_send := Some (Station_generate_new_frame now s1),
                          s_failed_transmissions_in_row := 0\<rparr>, ch1)
             else Inr (s1, ch1))"

text \<open>
  \<^verbatim>\<open>Station.sent_completed\<close>. The airtime tally is a dictionary entry incremented in
  place, which raises when the station's key is missing.
\<close>

definition Station_sent_completed :: "int \<Rightarrow> station \<Rightarrow> channel \<Rightarrow> py_error + station \<times> channel" where
  "Station_sent_completed now s ch =
     (case frame_to_send s of
        None \<Rightarrow> Inl AttributeError
      | Some f \<Rightarrow>
          let f1 = f\<lparr>f_t_end := Some now, f_t_to_send := Some (now - f_t_start f)\<rparr>;
              ch1 = ch\<lparr>succeeded_transmissions := succeeded_transmissions ch + 1,
                       bytes_sent := bytes_sent ch + f_data_size f1\<rparr>;
              s1 = s\<lparr>frame_to_send := Some f1,
                     s_succeeded_transmissions := s_succeeded_transmissions s + 1,
                     s_failed_transmissions_in_row := 0\<rparr>
          in (case airtime_data ch1 (s_name s1) of
                None \<Rightarrow> Inl KeyError
              | Some a \<Rightarrow>
                  let ch2 = ch1\<lparr>airtime_data := (airtime_data ch1)(s_name s1 \<mapsto> a + frame_time f1)\<rparr>
                  in (case packet_queue s1 of
                        [] \<Rightarrow> Inr (s1, ch2)
                      | p # ps \<Rightarrow>
                          Inr (s1\<lparr>packet_queue := ps,
                                  s_total_latency := s_total_latency s1 + (now - gen_time p),
                                  s_packet_count := s_packet_count s1 + 1\<rparr>, ch2))))"

text \<open>\<^verbatim>\<open>Station.check_collision\<close>, with the returned flag next to the updated state.\<close>

definition Station_check_collision ::
  "int \<Rightarrow> station \<Rightarrow> channel \<Rightarrow> py_error + bool \<times> station \<times> channel" where
  "Station_check_collision now s ch =
     (if length (tx_list ch) + length (tx_list_NR ch) > 1
         \<or> length (tx_list ch) + length (tx_list_NR ch) = 0
      then (case Station_sent_failed now s ch of
              Inl e \<Rightarrow> Inl e | Inr (s', ch') \<Rightarrow> Inr (False, s', ch'))
      else (case Station_sent_completed now s ch of
              Inl e \<Rightarrow> Inl e | Inr (s', ch') \<Rightarrow> Inr (True, s', ch')))"

section \<open>NR-U gNB: outcome of a transmission\<close>

text \<open>
  \<^verbatim>\<open>Gnb.gen_new_transmission\<close>. The module-level flag \<^verbatim>\<open>gap\<close> is a parameter of every
  function that reads it.
\<close>

definition gen_new_transmission :: "bool \<Rightarrow> int \<Rightarrow> gnb \<Rightarrow> transmission_nr" where
  "gen_new_transmission gap now g =
     (let transmission_time = mcot (g_config_nr g) * 1000;
          rs_time = (if gap then 0 else next_sync_slot_boundry g - now);
          airtime = transmission_time - rs_time
      in \<lparr>transmission_time = transmission_time, enb_name = g_name g, t_col = g_col g,
          t_t_start = now, airtime = airtime, rs_time = rs_time,
          t_number_of_retransmissions = 0, t_t_end = None, t_t_to_send = None,
          collided = False, t_packet_gen_time = - 1, t_packet_size = 1472\<rparr>)"

text \<open>\<^verbatim>\<open>Gnb.sent_failed\<close>: the retry limit is the literal 7.\<close>

definition Gnb_sent_failed :: "gnb \<Rightarrow> channel \<Rightarrow> py_error + gnb \<times> channel" where
  "Gnb_sent_failed g ch =
     (case transmission_to_send g of
        None \<Rightarrow> Inl AttributeError
      | Some t \<Rightarrow>
          let t1 = t\<lparr>t_number_of_retransmissions := t_number_of_retransmissions t + 1\<rparr>;
              ch1 = ch\<lparr>failed_transmissions_NR := failed_transmissions_NR ch + 1\<rparr>;
              g1 = g\<lparr>transmission_to_send := Some t1,
                     g_failed_transmissions := g_failed_transmissions g + 1,
                     g_failed_transmissions_in_row := g_failed_transmissions_in_row g + 1\<rparr>
          in if t_number_of_retransmissions t1 > 7
             then Inr (g1\<lparr>g_failed_transmissions_in_row := 0\<rparr>, ch1)
             else Inr (g1, ch1))"

text \<open>\<^verbatim>\<open>Gnb.sent_completed\<close>.\<close>

definition Gnb_sent_completed :: "int \<Rightarrow> gnb \<Rightarrow> channel \<Rightarrow> py_error + gnb \<times> channel" where
  "Gnb_sent_completed now g ch =
     (case transmission_to_send g of
        None \<Rightarrow> Inl AttributeError
      | Some t \<Rightarrow>
          let t1 = t\<lparr>t_t_end := Some now, t_t_to_send := Some (now - t_t_start t)\<rparr>
          in Inr (g\<lparr>transmission_to_send := Some t1,
                    g_succeeded_transmissions := g_succeeded_transmissions g + 1,
                    g_failed_transmissions_in_row := 0\<rparr>,
                  ch\<lparr>succeeded_transmissions_NR := succeeded_transmissions_NR ch + 1\<rparr>))"

text \<open>
  \<^verbatim>\<open>Gnb.check_collision\<close>: the source tests \<^verbatim>\<open>gap\<close> first and spells the rule out in
  each branch; the model keeps both branches.
\<close>

definition Gnb_check_collision ::
  "bool \<Rightarrow> int \<Rightarrow> gnb \<Rightarrow> channel \<Rightarrow> py_error + bool \<times> gnb \<times> channel" where
  "Gnb_check_collision gap now g ch =
     (if gap then
        (if length (tx_list ch) + length (tx_list_NR ch) > 1
            \<or> length (tx_list ch) + length (tx_list_NR ch) = 0
         then (case Gnb_sent_failed g ch of
                 Inl e \<Rightarrow> Inl e | Inr (g', ch') \<Rightarrow> Inr (False, g', ch'))
         else (case Gnb_sent_completed now g ch of
                 Inl e \<Rightarrow> Inl e | Inr (g', ch') \<Rightarrow> Inr (True, g', ch')))
      else
        (if length (tx_list ch) + length (tx_list_NR ch) > 1
            \<or> length (tx_list ch) + length (tx_list_NR ch) = 0
         then (case Gnb_sent_failed g ch of
                 Inl e \<Rightarrow> Inl e | Inr (g', ch') \<Rightarrow> Inr (False, g', ch'))
         else (case Gnb_sent_completed now g ch of
                 Inl e \<Rightarrow> Inl e | Inr (g', ch') \<Rightarrow> Inr (True, g', ch'))))"

section \<open>Drawing a backoff\<close>

text \<open>
  \<^verbatim>\<open>random.randint(a, b)\<close> returns an integer of the closed range and raises on an empty
  range. The generator is abstracted to its next raw output, which is reduced into the
  range: every value of the range is the result for some raw output.
\<close>

definition randint :: "nat \<Rightarrow> int \<Rightarrow> int \<Rightarrow> py_error + int" where
  "randint raw a b =
     (if b < a then Inl ValueError else Inr (a + int (raw mod nat (b - a + 1))))"

text \<open>
  \<^verbatim>\<open>Station.generate_new_back_off_time\<close>. The drawn slot count is tallied in
  \<^verbatim>\<open>channel.backoffs[back_off][n_of_stations]\<close>; a missing key raises. The result is
  the residue in microseconds.
\<close>

definition Station_generate_new_back_off_time ::
  "nat \<Rightarrow> nat \<Rightarrow> station \<Rightarrow> channel \<Rightarrow> py_error + int \<times> channel" where
  "Station_generate_new_back_off_time raw failed_transmissions_in_row s ch =
     (let upper_limit = 2 ^ failed_transmissions_in_row * (s_cw_min s + 1) - 1;
          upper_limit = (if upper_limit \<le> s_cw_max s then upper_limit else s_cw_max s)
      in case randint raw 0 upper_limit of
           Inl e \<Rightarrow> Inl e
         | Inr back_off \<Rightarrow>
             (case backoffs ch back_off of
                None \<Rightarrow> Inl KeyError
              | Some row \<Rightarrow>
                  (case row (n_of_stations ch) of
                     None \<Rightarrow> Inl KeyError
                   | Some c \<Rightarrow>
                       Inr (back_off * t_slot (s_times s),
                            ch\<lparr>backoffs := (backoffs ch)
                                 (back_off \<mapsto> row(n_of_stations ch \<mapsto> c + 1))\<rparr>))))"

text \<open>\<^verbatim>\<open>Gnb.generate_new_back_off_time\<close>: the slot unit is the observation slot.\<close>

definition Gnb_generate_new_back_off_time ::
  "nat \<Rightarrow> nat \<Rightarrow> gnb \<Rightarrow> channel \<Rightarrow> py_error + int \<times> channel" where
  "Gnb_generate_new_back_off_time raw failed_transmissions_in_row g ch =
     (let upper_limit = 2 ^ failed_transmissions_in_row * (g_cw_min g + 1) - 1;
          upper_limit = (if upper_limit \<le> g_cw_max g then upper_limit else g_cw_max g)
      in case randint raw 0 upper_limit of
           Inl e \<Rightarrow> Inl e
         | Inr back_off \<Rightarrow>
             (case backoffs ch back_off of
                None \<Rightarrow> Inl KeyError
              | Some row \<Rightarrow>
                  (case row (n_of_stations ch) of
                     None \<Rightarrow> Inl KeyError
                   | Some c \<Rightarrow>
                       Inr (back_off * observation_slot_duration (g_config_nr g),
                            ch\<lparr>backoffs := (backoffs ch)
                                 (back_off \<mapsto> row(n_of_stations ch \<mapsto> c + 1))\<rparr>))))"

section \<open>Sending: the segments of the send processes between two suspensions\<close>

text \<open>
  \<^verbatim>\<open>Gnb.send_transmission\<close> is a process of the event kernel. Between two suspensions
  it runs without interleaving, so each segment is a function. The first segment runs up
  to the request of the transmission queue: it creates a new transmission descriptor on
  every attempt.
\<close>

definition send_transmission_start :: "bool \<Rightarrow> int \<Rightarrow> gnb \<Rightarrow> channel \<Rightarrow> gnb \<times> channel" where
  "send_transmission_start gap now g ch =
     (let g1 = g\<lparr>g_is_transmitting := True\<rparr>;
          ch1 = ch\<lparr>tx_list_NR := tx_list_NR ch @ [g_name g1]\<rparr>
      in (g1\<lparr>transmission_to_send := Some (gen_new_transmission gap now g1)\<rparr>, ch1))"

text \<open>
  The segment of the gNB that was granted the queue, from the end of its transmission
  time: it clears the NR-U backoff list, applies the collision rule, books the airtime on
  success and clears both transmit lists.
\<close>

definition send_transmission_held ::
  "bool \<Rightarrow> int \<Rightarrow> gnb \<Rightarrow> channel \<Rightarrow> py_error + bool \<times> gnb \<times> channel" where
  "send_transmission_held gap now g ch =
     (case Gnb_check_collision gap now g (ch\<lparr>back_off_list_NR := []\<rparr>) of
        Inl e \<Rightarrow> Inl e
      | Inr (was_sent, g1, ch1) \<Rightarrow>
          if was_sent then
            (case transmission_to_send g1 of
               None \<Rightarrow> Inl AttributeError
             | Some t \<Rightarrow>
                 (case airtime_control_NR ch1 (g_name g1) of
                    None \<Rightarrow> Inl KeyError
                  | Some c \<Rightarrow>
                      let ch2 = ch1\<lparr>airtime_control_NR :=
                                      (airtime_control_NR ch1)(g_name g1 \<mapsto> c + rs_time t)\<rparr>
                      in (case airtime_data_NR ch2 (g_name g1) of
                            None \<Rightarrow> Inl KeyError
                          | Some d \<Rightarrow>
                              Inr (True, g1,
                                   ch2\<lparr>airtime_data_NR :=
                                          (airtime_data_NR ch2)(g_name g1 \<mapsto> d + airtime t),
                                       tx_list_NR := [], tx_list := []\<rparr>))))
          else Inr (False, g1, ch1\<lparr>tx_list_NR := [], tx_list := []\<rparr>))"

text \<open>
  The segment of a gNB that lost the queue to a longer transmission, from the end of its
  own transmission time.
\<close>

definition send_transmission_lost ::
  "bool \<Rightarrow> int \<Rightarrow> gnb \<Rightarrow> channel \<Rightarrow> py_error + bool \<times> gnb \<times> channel" where
  "send_transmission_lost gap now g ch =
     (case Gnb_check_collision gap now g ch of
        Inl e \<Rightarrow> Inl e
      | Inr (was_sent, g1, ch1) \<Rightarrow> Inr (was_sent, g1\<lparr>g_is_transmitting := False\<rparr>, ch1))"

text \<open>
  \<^verbatim>\<open>Station.send_frame\<close>: the first segment, and the segment of a station that lost the
  queue. The frame is the one \<^verbatim>\<open>Station.start\<close> generated before the first attempt; it
  is kept across attempts.
\<close>

definition send_frame_start :: "station \<Rightarrow> channel \<Rightarrow> station \<times> channel" where
  "send_frame_start s ch =
     (s\<lparr>s_is_transmitting := True\<rparr>, ch\<lparr>tx_list := tx_list ch @ [s_name s]\<rparr>)"

definition send_frame_lost ::
  "int \<Rightarrow> station \<Rightarrow> channel \<Rightarrow> py_error + bool \<times> station \<times> channel" where
  "send_frame_lost now s ch =
     (case Station_check_collision now s ch of
        Inl e \<Rightarrow> Inl e
      | Inr (was_sent, s1, ch1) \<Rightarrow> Inr (was_sent, s1\<lparr>s_is_transmitting := False\<rparr>, ch1))"

text \<open>
  A run of attempts that all collide: a station and a gNB start to send at the same
  instants \<open>ts\<close>. The gNB's transmission is the longer one, so the gNB holds the queue and
  the station is the one that lost it; the station evaluates the collision rule first
  (its frame ends first), the gNB then does and clears the lists.
\<close>

fun collided_attempts ::
  "bool \<Rightarrow> int list \<Rightarrow> station \<Rightarrow> gnb \<Rightarrow> channel \<Rightarrow> py_error + station \<times> gnb \<times> channel" where
  "collided_attempts gap [] s g ch = Inr (s, g, ch)"
| "collided_attempts gap (now # ts) s g ch =
     (let (s1, ch1) = send_frame_start s ch;
          (g1, ch2) = send_transmission_start gap now g ch1
      in case (case frame_to_send s1 of
                 None \<Rightarrow> Inl AttributeError
               | Some f \<Rightarrow> send_frame_lost (now + frame_time f) s1 ch2) of
           Inl e \<Rightarrow> Inl e
         | Inr (_, s2, ch3) \<Rightarrow>
             (case send_transmission_held gap (now + mcot (g_config_nr g1) * 1000) g1 ch3 of
                Inl e \<Rightarrow> Inl e
              | Inr (_, g2, ch4) \<Rightarrow> collided_attempts gap ts s2 g2 ch4))"

section \<open>Gap mode: waiting for the synchronization slot\<close>

text \<open>
  The inner loop of \<^verbatim>\<open>Gnb.wait_back_off_gap\<close> moves the target synchronization slot
  forward while the backoff does not fit before it. Nothing in the loop bounds the number
  of rounds, so the model is a partial function: no result is \<open>None\<close>.
\<close>

partial_function (option) sync_slot_advance :: "int \<Rightarrow> int \<Rightarrow> int \<Rightarrow> int option" where
  "sync_slot_advance back_off to_next_sync_slot sync_slot_duration =
     (if back_off \<ge> to_next_sync_slot
      then sync_slot_advance back_off (to_next_sync_slot + sync_slot_duration)
             sync_slot_duration
      else Some to_next_sync_slot)"

text \<open>
  The segment of \<^verbatim>\<open>wait_back_off_gap\<close> from the grant of the channel lock to the
  suspension for the gap period: it returns the gap period, or the failed assertion.
\<close>

definition wait_back_off_gap_period :: "int \<Rightarrow> gnb \<Rightarrow> (py_error + int \<times> gnb) option" where
  "wait_back_off_gap_period now g =
     (case sync_slot_advance (g_back_off_time g) (next_sync_slot_boundry g - now)
             (synchronization_slot_duration (g_config_nr g)) of
        None \<Rightarrow> None
      | Some t \<Rightarrow>
          let g1 = g\<lparr>time_to_next_sync_slot := t\<rparr>;
              gap_time = time_to_next_sync_slot g1 - g_back_off_time g1
          in if gap_time \<ge> 0 then Some (Inr (gap_time, g1)) else Some (Inl AssertionError))"

section \<open>The dynamic contention-window controller\<close>

text \<open>
  \<^verbatim>\<open>DynamicCWController\<close>. The controller holds the two configuration objects and reaches
  the nodes through the registries of its channel. Floating-point values (the fairness
  index, the target, the factor 1.1) are idealised as reals; airtimes are sums of integer
  durations.
\<close>

record adjustment =
  a_time :: int
  a_wifi_cw_min :: int
  a_wifi_cw_max :: int
  a_nru_cw_min :: int
  a_nru_cw_max :: int
  a_fairness :: real
  a_wifi_airtime :: int
  a_nru_airtime :: int

record controller =
  c_channel :: channel
  wifi_config :: config
  nru_config :: config_nr
  measurement_interval :: int
  adjustment_step :: int
  target_fairness :: real
  min_cw :: int
  max_cw :: int
  last_wifi_airtime :: int
  last_nru_airtime :: int
  last_measurement_time :: int
  adjustment_history :: "adjustment list"

text \<open>The controller as \<^verbatim>\<open>run_simulation\<close> creates it, the other fields at their defaults.\<close>

definition DynamicCWController :: "channel \<Rightarrow> config \<Rightarrow> config_nr \<Rightarrow> controller" where
  "DynamicCWController ch wc nc =
     \<lparr>c_channel = ch, wifi_config = wc, nru_config = nc, measurement_interval = 1000000,
      adjustment_step = 5, target_fairness = 95 / 100, min_cw = 7, max_cw = 511,
      last_wifi_airtime = 0, last_nru_airtime = 0, last_measurement_time = 0,
      adjustment_history = []\<rparr>"


text \<open>
  The broadcasts to every node of \<^verbatim>\<open>channel.stations.values()\<close> and of
  \<^verbatim>\<open>channel.gnbs.values()\<close>.
\<close>

definition update_stations :: "config \<Rightarrow> channel \<Rightarrow> channel" where
  "update_stations wc ch =
     ch\<lparr>stations := (\<lambda>n. map_option (\<lambda>st. st\<lparr>s_cw_min := cw_min wc, s_cw_max := cw_max wc\<rparr>)
                              (stations ch n))\<rparr>"

definition update_gnbs :: "config_nr \<Rightarrow> channel \<Rightarrow> channel" where
  "update_gnbs nc ch =
     ch\<lparr>gnbs := (\<lambda>n. map_option (\<lambda>gn. gn\<lparr>g_cw_min := nr_cw_min nc, g_cw_max := nr_cw_max nc\<rparr>)
                          (gnbs ch n))\<rparr>"

definition increase_wifi_cw :: "controller \<Rightarrow> controller" where
  "increase_wifi_cw c =
     (let new_cw = min (cw_min (wifi_config c) + adjustment_step c) (max_cw c);
          wc = (wifi_config c)\<lparr>cw_min := new_cw, cw_max := min (new_cw * 4) (max_cw c)\<rparr>
      in c\<lparr>wifi_config := wc, c_channel := update_stations wc (c_channel c)\<rparr>)"

definition decrease_wifi_cw :: "controller \<Rightarrow> controller" where
  "decrease_wifi_cw c =
     (let new_cw = max (cw_min (wifi_config c) - adjustment_step c) (min_cw c);
          wc = (wifi_config c)\<lparr>cw_min := new_cw, cw_max := min (new_cw * 4) (max_cw c)\<rparr>
      in c\<lparr>wifi_config := wc, c_channel := update_stations wc (c_channel c)\<rparr>)"

definition increase_nru_cw :: "controller \<Rightarrow> controller" where
  "increase_nru_cw c =
     (let new_cw = min (nr_cw_min (nru_config c) + adjustment_step c) (max_cw c);
          nc = (nru_config c)\<lparr>nr_cw_min := new_cw, nr_cw_max := min (new_cw * 4) (max_cw c)\<rparr>
      in c\<lparr>nru_config := nc, c_channel := update_gnbs nc (c_channel c)\<rparr>)"

definition decrease_nru_cw :: "controller \<Rightarrow> controller" where
  "decrease_nru_cw c =
     (let new_cw = max (nr_cw_min (nru_config c) - adjustment_step c) (min_cw c);
          nc = (nru_config c)\<lparr>nr_cw_min := new_cw, nr_cw_max := min (new_cw * 4) (max_cw c)\<rparr>
      in c\<lparr>nru_config := nc, c_channel := update_gnbs nc (c_channel c)\<rparr>)"



section \<open>The collision probability at the end of a run\<close>

text \<open>
  The collision probability is the quotient of two integer counters, taken by Python's
  \<^verbatim>\<open>/\<close>, which raises on a zero divisor; the model takes the quotient in the reals.
\<close>

definition py_truediv :: "real \<Rightarrow> real \<Rightarrow> py_error + real" where
  "py_truediv a b = (if b = 0 then Inl ZeroDivisionError else Inr (a / b))"

text \<open>
  The collision probabilities in \<^verbatim>\<open>run_simulation\<close>, from the number of nodes of the
  technology and the channel's counters at the end of the run.
\<close>

definition p_coll :: "int \<Rightarrow> channel \<Rightarrow> py_error + real" where
  "p_coll number_of_stations ch =
     (if number_of_stations \<noteq> 0 then
        (if failed_transmissions ch + succeeded_transmissions ch \<noteq> 0
         then py_truediv (real (failed_transmissions ch))
                (real (failed_transmissions ch + succeeded_transmissions ch))
         else Inr 0)
      else Inr 0)"

definition p_coll_NR :: "int \<Rightarrow> channel \<Rightarrow> py_error + real" where
  "p_coll_NR number_of_gnb ch =
     (if number_of_gnb \<noteq> 0 then
        (if failed_transmissions_NR ch + succeeded_transmissions_NR ch \<noteq> 0
         then py_truediv (real (failed_transmissions_NR ch))
                (real (failed_transmissions_NR ch + succeeded_transmissions_NR ch))
         else Inr 0)
      else Inr 0)"

section \<open>Construction of the channel and the nodes\<close>

text \<open>
  The channel as \<^verbatim>\<open>run_simulation\<close> creates it from the tally dictionaries of its caller,
  and the tally of drawn backoffs as the run scripts build it: one row per slot count of
  \<^verbatim>\<open>range(wifi_cw_max + 1)\<close>, with the single column \<^verbatim>\<open>wifi_count\<close>.
\<close>

definition Channel :: "int \<Rightarrow> int \<Rightarrow> (int \<rightharpoonup> (int \<rightharpoonup> int)) \<Rightarrow> channel" where
  "Channel number_of_stations number_of_gnb tally =
     \<lparr>n_of_stations = number_of_stations, n_of_eNB = number_of_gnb, backoffs = tally,
      airtime_data = Map.empty, airtime_control = Map.empty,
      airtime_data_NR = Map.empty, airtime_control_NR = Map.empty,
      tx_list = [], back_off_list = [], tx_list_NR = [], back_off_list_NR = [],
      stations = Map.empty, gnbs = Map.empty,
      failed_transmissions = 0, succeeded_transmissions = 0, bytes_sent = 0,
      failed_transmissions_NR = 0, succeeded_transmissions_NR = 0\<rparr>"

definition backoffs_table :: "int \<Rightarrow> int \<Rightarrow> (int \<rightharpoonup> (int \<rightharpoonup> int))" where
  "backoffs_table wifi_count wifi_cw_max =
     (\<lambda>key. if 0 \<le> key \<and> key < wifi_cw_max + 1 then Some [wifi_count \<mapsto> 0] else None)"

text \<open>
  \<^verbatim>\<open>Station.__init__\<close> and \<^verbatim>\<open>Gnb.__init__\<close>: the node enters its two airtime tallies
  with zero. The colour of the log output is drawn by the caller.
\<close>

definition Station :: "string \<Rightarrow> string \<Rightarrow> times \<Rightarrow> config \<Rightarrow> channel \<Rightarrow> station \<times> channel" where
  "Station name col tm cfg ch =
     (\<lparr>s_config = cfg, s_times = tm, s_name = name, s_col = col, frame_to_send = None,
       s_succeeded_transmissions = 0, s_failed_transmissions = 0,
       s_failed_transmissions_in_row = 0, s_cw_min = cw_min cfg, s_cw_max = cw_max cfg,
       s_first_interrupt = False, s_back_off_time = 0, s_start = 0, s_total_latency = 0,
       s_packet_count = 0, s_transmit_power_dbm = 23, next_packet_id = 0, packet_queue = [],
       s_is_transmitting = False\<rparr>,
      ch\<lparr>airtime_data := (airtime_data ch)(name \<mapsto> 0),
         airtime_control := (airtime_control ch)(name \<mapsto> 0)\<rparr>)"

definition Gnb :: "string \<Rightarrow> string \<Rightarrow> config_nr \<Rightarrow> channel \<Rightarrow> gnb \<times> channel" where
  "Gnb name col cfg ch =
     (\<lparr>g_config_nr = cfg, g_name = name, g_col = col, transmission_to_send = None,
       g_succeeded_transmissions = 0, g_failed_transmissions = 0,
       g_failed_transmissions_in_row = 0, g_cw_min = nr_cw_min cfg, g_cw_max = nr_cw_max cfg,
       desync = 0, next_sync_slot_boundry = 0, desync_done = False,
       g_first_interrupt = False, g_back_off_time = 0, time_to_next_sync_slot = 0,
       waiting_backoff = False, start_nr = 0, g_total_latency = 0, g_packet_count = 0,
       g_transmit_power_dbm = 23, g_is_transmitting = False\<rparr>,
      ch\<lparr>airtime_data_NR := (airtime_data_NR ch)(name \<mapsto> 0),
         airtime_control_NR := (airtime_control_NR ch)(name \<mapsto> 0)\<rparr>)"

text \<open>
  A run with one station and one gNB at their default configurations, registered with
  the channel as \<^verbatim>\<open>run_simulation\<close> does; the station holds the frame that
  \<^verbatim>\<open>Station.start\<close> generates at time 0. The time constants stand for those of the
  module \<^verbatim>\<open>Times\<close>.
\<close>

definition times_1 :: times where
  "times_1 = \<lparr>t_slot = 9, t_difs = 34, ack_timeout = 44, ack_frame_time = 44\<rparr>"

definition station_1 :: station where
  "station_1 =
     (let s = fst (Station ''Station 1'' [] times_1 Config (Channel 1 1 (backoffs_table 1 63)))
      in s\<lparr>frame_to_send := Some (Station_generate_new_frame 0 s)\<rparr>)"

definition gnb_1 :: gnb where
  "gnb_1 =
     fst (Gnb ''Gnb 1'' [] Config_NR
            (snd (Station ''Station 1'' [] times_1 Config (Channel 1 1 (backoffs_table 1 63)))))"

definition channel_1 :: channel where
  "channel_1 =
     (let ch = snd (Gnb ''Gnb 1'' [] Config_NR
                 (snd (Station ''Station 1'' [] times_1 Config
                         (Channel 1 1 (backoffs_table 1 63)))))
      in ch\<lparr>stations := [''Station 1'' \<mapsto> station_1], gnbs := [''Gnb 1'' \<mapsto> gnb_1]\<rparr>)"

text \<open>
  States of that run for the collision rule: the gNB after the first segment of
  \<^verbatim>\<open>send_transmission\<close> at time 0, the channel when only the station has started to
  send, and the channel when both have.
\<close>

definition gnb_1_sending :: gnb where
  "gnb_1_sending = fst (send_transmission_start True 0 gnb_1 channel_1)"

definition channel_1_station :: channel where
  "channel_1_station = snd (send_frame_start station_1 channel_1)"

definition channel_1_both :: channel where
  "channel_1_both = snd (send_transmission_start True 0 gnb_1 channel_1_station)"

text \<open>
  A gNB and a station of that run whose pending transmission and frame have collided
  seven times in a row.
\<close>

definition gnb_1_retried :: gnb where
  "gnb_1_retried =
     gnb_1\<lparr>transmission_to_send :=
               Some ((gen_new_transmission True 0 gnb_1)\<lparr>t_number_of_retransmissions := 7\<rparr>),
            g_failed_transmissions_in_row := 7\<rparr>"

definition station_1_retried :: station where
  "station_1_retried =
     station_1\<lparr>frame_to_send :=
                   Some ((Station_generate_new_frame 0 station_1)
                           \<lparr>f_number_of_retransmissions := 7\<rparr>),
                s_failed_transmissions_in_row := 7\<rparr>"

text \<open>The controller of that run, as \<^verbatim>\<open>run_simulation\<close> creates it.\<close>

definition controller_1 :: controller where
  "controller_1 = DynamicCWController channel_1 Config Config_NR"


section \<open>Evaluation of the example run\<close>

lemmas example_defs = station_1_def gnb_1_def channel_1_def Station_def Gnb_def Channel_def
  Config_def Config_NR_def times_1_def backoffs_table_def Station_generate_new_frame_def

lemmas sending_defs = gnb_1_sending_def channel_1_station_def channel_1_both_def

lemmas controller_defs = controller_1_def DynamicCWController_def

lemmas collision_defs = Station_check_collision_def Gnb_check_collision_def
  Station_sent_failed_def Gnb_sent_failed_def Station_sent_completed_def
  Gnb_sent_completed_def

lemmas start_defs = send_frame_start_def send_transmission_start_def
  gen_new_transmission_def

lemmas attempt_defs = send_frame_lost_def send_transmission_held_def

lemmas cw_defs = increase_wifi_cw_def decrease_wifi_cw_def increase_nru_cw_def
  decrease_nru_cw_def update_stations_def update_gnbs_def

section \<open>The collision rule\<close>

text \<open>
  Claim C1. A node that evaluates the collision rule at the end of its frame finds the two
  transmit lists together holding \<open>n\<close> nodes. If \<open>n > 1\<close> or \<open>n = 0\<close>,
  \<^verbatim>\<open>check_collision\<close> is \<^verbatim>\<open>sent_failed\<close> followed by the answer \<open>False\<close>: the
  failure counters of the node and of the channel grow by one and the success counters
  stay. If \<open>n = 1\<close> it is \<^verbatim>\<open>sent_completed\<close> followed by \<open>True\<close>: the success
  counters grow by one and the failure counters stay. This holds for a station and for a
  gNB in either mode. The node has its pending frame (transmission), which the send
  process sets before it applies the rule, and the station has its airtime entry, which
  its constructor makes.
\<close>

theorem check_collision_rule:
  assumes "frame_to_send s \<noteq> None"
    and "airtime_data ch (s_name s) \<noteq> None"
    and "transmission_to_send g \<noteq> None"
  shows
    "(length (tx_list ch) + length (tx_list_NR ch) > 1
        \<or> length (tx_list ch) + length (tx_list_NR ch) = 0 \<longrightarrow>
       (\<exists>s' ch'. Station_sent_failed now s ch = Inr (s', ch')
          \<and> Station_check_collision now s ch = Inr (False, s', ch')
          \<and> failed_transmissions ch' = failed_transmissions ch + 1
          \<and> s_failed_transmissions s' = s_failed_transmissions s + 1
          \<and> succeeded_transmissions ch' = succeeded_transmissions ch
          \<and> s_succeeded_transmissions s' = s_succeeded_transmissions s)
       \<and> (\<exists>g' ch'. Gnb_sent_failed g ch = Inr (g', ch')
          \<and> Gnb_check_collision gap now g ch = Inr (False, g', ch')
          \<and> failed_transmissions_NR ch' = failed_transmissions_NR ch + 1
          \<and> g_failed_transmissions g' = g_failed_transmissions g + 1
          \<and> succeeded_transmissions_NR ch' = succeeded_transmissions_NR ch
          \<and> g_succeeded_transmissions g' = g_succeeded_transmissions g))
     \<and> (length (tx_list ch) + length (tx_list_NR ch) = 1 \<longrightarrow>
       (\<exists>s' ch'. Station_sent_completed now s ch = Inr (s', ch')
          \<and> Station_check_collision now s ch = Inr (True, s', ch')
          \<and> succeeded_transmissions ch' = succeeded_transmissions ch + 1
          \<and> s_succeeded_transmissions s' = s_succeeded_transmissions s + 1
          \<and> failed_transmissions ch' = failed_transmissions ch
          \<and> s_failed_transmissions s' = s_failed_transmissions s)
       \<and> (\<exists>g' ch'. Gnb_sent_completed now g ch = Inr (g', ch')
          \<and> Gnb_check_collision gap now g ch = Inr (True, g', ch')
          \<and> succeeded_transmissions_NR ch' = succeeded_transmissions_NR ch + 1
          \<and> g_succeeded_transmissions g' = g_succeeded_transmissions g + 1
          \<and> failed_transmissions_NR ch' = failed_transmissions_NR ch
          \<and> g_failed_transmissions g' = g_failed_transmissions g))"
proof (intro conjI impI)
  assume n: "length (tx_list ch) + length (tx_list_NR ch) > 1
        \<or> length (tx_list ch) + length (tx_list_NR ch) = 0"
  show "\<exists>s' ch'. Station_sent_failed now s ch = Inr (s', ch')
          \<and> Station_check_collision now s ch = Inr (False, s', ch')
          \<and> failed_transmissions ch' = failed_transmissions ch + 1
          \<and> s_failed_transmissions s' = s_failed_transmissions s + 1
          \<and> succeeded_transmissions ch' = succeeded_transmissions ch
          \<and> s_succeeded_transmissions s' = s_succeeded_transmissions s"
    using n assms(1)
    by (auto simp: Station_check_collision_def Station_sent_failed_def Let_def split: if_splits)
  show "\<exists>g' ch'. Gnb_sent_failed g ch = Inr (g', ch')
          \<and> Gnb_check_collision gap now g ch = Inr (False, g', ch')
          \<and> failed_transmissions_NR ch' = failed_transmissions_NR ch + 1
          \<and> g_failed_transmissions g' = g_failed_transmissions g + 1
          \<and> succeeded_transmissions_NR ch' = succeeded_transmissions_NR ch
          \<and> g_succeeded_transmissions g' = g_succeeded_transmissions g"
    using n assms(3)
    by (auto simp: Gnb_check_collision_def Gnb_sent_failed_def Let_def split: if_splits)
next
  assume n: "length (tx_list ch) + length (tx_list_NR ch) = 1"
  show "\<exists>s' ch'. Station_sent_completed now s ch = Inr (s', ch')
          \<and> Station_check_collision now s ch = Inr (True, s', ch')
          \<and> succeeded_transmissions ch' = succeeded_transmissions ch + 1
          \<and> s_succeeded_transmissions s' = s_succeeded_transmissions s + 1
          \<and> failed_transmissions ch' = failed_transmissions ch
          \<and> s_failed_transmissions s' = s_failed_transmissions s"
    using n assms(1,2)
    by (auto simp: Station_check_collision_def Station_sent_completed_def Let_def
             split: list.splits)
  show "\<exists>g' ch'. Gnb_sent_completed now g ch = Inr (g', ch')
          \<and> Gnb_check_collision gap now g ch = Inr (True, g', ch')
          \<and> succeeded_transmissions_NR ch' = succeeded_transmissions_NR ch + 1
          \<and> g_succeeded_transmissions g' = g_succeeded_transmissions g + 1
          \<and> failed_transmissions_NR ch' = failed_transmissions_NR ch
          \<and> g_failed_transmissions g' = g_failed_transmissions g"
    using n assms(3)
    by (auto simp: Gnb_check_collision_def Gnb_sent_completed_def Let_def)
qed

text \<open>
  The rule at work in the example run: with the station and the gNB both sending, both
  record a failure; with the station alone, it records a success.
\<close>

theorem check_collision_rule_witness:
  "frame_to_send station_1 \<noteq> None
   \<and> airtime_data channel_1_both (s_name station_1) \<noteq> None
   \<and> airtime_data channel_1_station (s_name station_1) \<noteq> None
   \<and> transmission_to_send gnb_1_sending \<noteq> None
   \<and> length (tx_list channel_1_both) + length (tx_list_NR channel_1_both) = 2
   \<and> length (tx_list channel_1_station) + length (tx_list_NR channel_1_station) = 1
   \<and> (\<exists>s' ch'. Station_check_collision 5400 station_1 channel_1_both = Inr (False, s', ch')
         \<and> failed_transmissions ch' = 1 \<and> s_failed_transmissions s' = 1)
   \<and> (\<exists>g' ch'. Gnb_check_collision True 6000 gnb_1_sending channel_1_both = Inr (False, g', ch')
         \<and> failed_transmissions_NR ch' = 1 \<and> g_failed_transmissions g' = 1)
   \<and> (\<exists>s' ch'. Station_check_collision 5400 station_1 channel_1_station = Inr (True, s', ch')
         \<and> succeeded_transmissions ch' = 1 \<and> s_succeeded_transmissions s' = 1)"
proof -
  have h1: "frame_to_send station_1 \<noteq> None"
    by (simp add: station_1_def Let_def)
  have h2: "airtime_data channel_1_both (s_name station_1) \<noteq> None"
    by (simp add: example_defs sending_defs start_defs Let_def)
  have h2': "airtime_data channel_1_station (s_name station_1) \<noteq> None"
    by (simp add: example_defs sending_defs start_defs Let_def)
  have h3: "transmission_to_send gnb_1_sending \<noteq> None"
    by (simp add: gnb_1_sending_def send_transmission_start_def Let_def)
  have n2: "length (tx_list channel_1_both) + length (tx_list_NR channel_1_both) = 2"
    by (simp add: example_defs sending_defs start_defs Let_def)
  have n1: "length (tx_list channel_1_station) + length (tx_list_NR channel_1_station) = 1"
    by (simp add: example_defs sending_defs start_defs Let_def)
  have c0: "failed_transmissions channel_1_both = 0"
    "failed_transmissions_NR channel_1_both = 0"
    "succeeded_transmissions channel_1_station = 0"
    "s_failed_transmissions station_1 = 0" "s_succeeded_transmissions station_1 = 0"
    "g_failed_transmissions gnb_1_sending = 0"
    by (simp_all add: example_defs sending_defs start_defs Let_def)
  from check_collision_rule [OF h1 h2 h3, where now = 5400 and gap = True]
       check_collision_rule [OF h1 h2 h3, where now = 6000 and gap = True]
       check_collision_rule [OF h1 h2' h3, where now = 5400 and gap = True]
  show ?thesis
    using h1 h2 h2' h3 n1 n2 c0 by (simp del: One_nat_def) blast
qed

text \<open>
  Claim C9. The answer of \<^verbatim>\<open>Gnb.check_collision\<close> and the state it leaves do not depend
  on the mode flag \<^verbatim>\<open>gap\<close>: at every time, for every gNB and every channel state, the
  branch of the gap mode and the branch of the reservation-signal mode give the same
  result, so they record the same failure or success.
\<close>

theorem gnb_check_collision_independent_of_gap:
  "Gnb_check_collision True now g ch = Gnb_check_collision False now g ch"
  by (simp add: Gnb_check_collision_def)

section \<open>Bounds of the drawn backoff\<close>

lemma randint_range: "randint raw a b = Inr x \<Longrightarrow> a \<le> x \<and> x \<le> b"
proof -
  assume h: "randint raw a b = Inr x"
  then have ab: "a \<le> b" by (auto simp: randint_def split: if_splits)
  from h ab have x: "x = a + int (raw mod nat (b - a + 1))"
    by (auto simp: randint_def split: if_splits)
  have "raw mod nat (b - a + 1) < nat (b - a + 1)" using ab by simp
  then have "int (raw mod nat (b - a + 1)) < b - a + 1" using ab by linarith
  then show ?thesis using x by simp
qed

lemma randint_returns: "a \<le> b \<Longrightarrow> \<exists>x. randint raw a b = Inr x"
  by (simp add: randint_def)

lemma upper_limit_min: "(if (u::int) \<le> m then u else m) = min u m"
  by simp

text \<open>
  Claim C2. Let \<open>k\<close> be the number of failures in a row and
  \<open>U = min (2^k * (cw_min + 1) - 1) cw_max\<close> for the node's current window. Whenever
  \<^verbatim>\<open>generate_new_back_off_time\<close> returns, there is a slot count \<open>b\<close> with
  \<open>0 \<le> b \<le> U\<close>, the returned residue is \<open>b\<close> times the slot unit (\<open>t_slot\<close> for a
  station, the observation slot for a gNB), and \<open>b\<close> is the row of the tally that was
  incremented. The call does return when \<open>U\<close> is not negative and the tally has an entry
  for every slot count up to \<open>U\<close>.
\<close>

theorem back_off_within_bounds:
  "(\<forall>residue ch'. Station_generate_new_back_off_time raw k s ch = Inr (residue, ch') \<longrightarrow>
      (\<exists>b row c. 0 \<le> b \<and> b \<le> min (2 ^ k * (s_cw_min s + 1) - 1) (s_cw_max s)
         \<and> residue = b * t_slot (s_times s)
         \<and> backoffs ch b = Some row \<and> row (n_of_stations ch) = Some c
         \<and> ch' = ch\<lparr>backoffs := (backoffs ch)(b \<mapsto> row(n_of_stations ch \<mapsto> c + 1))\<rparr>))
   \<and> (\<forall>residue ch'. Gnb_generate_new_back_off_time raw k g ch = Inr (residue, ch') \<longrightarrow>
      (\<exists>b row c. 0 \<le> b \<and> b \<le> min (2 ^ k * (g_cw_min g + 1) - 1) (g_cw_max g)
         \<and> residue = b * observation_slot_duration (g_config_nr g)
         \<and> backoffs ch b = Some row \<and> row (n_of_stations ch) = Some c
         \<and> ch' = ch\<lparr>backoffs := (backoffs ch)(b \<mapsto> row(n_of_stations ch \<mapsto> c + 1))\<rparr>))
   \<and> (0 \<le> min (2 ^ k * (s_cw_min s + 1) - 1) (s_cw_max s)
        \<and> (\<forall>b. 0 \<le> b \<and> b \<le> min (2 ^ k * (s_cw_min s + 1) - 1) (s_cw_max s) \<longrightarrow>
              (\<exists>row c. backoffs ch b = Some row \<and> row (n_of_stations ch) = Some c)) \<longrightarrow>
        (\<exists>residue ch'. Station_generate_new_back_off_time raw k s ch = Inr (residue, ch')))
   \<and> (0 \<le> min (2 ^ k * (g_cw_min g + 1) - 1) (g_cw_max g)
        \<and> (\<forall>b. 0 \<le> b \<and> b \<le> min (2 ^ k * (g_cw_min g + 1) - 1) (g_cw_max g) \<longrightarrow>
              (\<exists>row c. backoffs ch b = Some row \<and> row (n_of_stations ch) = Some c)) \<longrightarrow>
        (\<exists>residue ch'. Gnb_generate_new_back_off_time raw k g ch = Inr (residue, ch')))"
proof (intro conjI allI impI)
  fix residue ch'
  assume h: "Station_generate_new_back_off_time raw k s ch = Inr (residue, ch')"
  then obtain b where
    b: "randint raw 0 (min (2 ^ k * (s_cw_min s + 1) - 1) (s_cw_max s)) = Inr b"
    by (auto simp: Station_generate_new_back_off_time_def Let_def min_def split: sum.splits)
  from randint_range[OF b]
  have rng: "0 \<le> b \<and> b \<le> min (2 ^ k * (s_cw_min s + 1) - 1) (s_cw_max s)" .
  from h b rng
  show "\<exists>b row c. 0 \<le> b \<and> b \<le> min (2 ^ k * (s_cw_min s + 1) - 1) (s_cw_max s)
         \<and> residue = b * t_slot (s_times s)
         \<and> backoffs ch b = Some row \<and> row (n_of_stations ch) = Some c
         \<and> ch' = ch\<lparr>backoffs := (backoffs ch)(b \<mapsto> row(n_of_stations ch \<mapsto> c + 1))\<rparr>"
    by (auto simp: Station_generate_new_back_off_time_def Let_def min_def
             split: sum.splits option.splits if_splits)
next
  fix residue ch'
  assume h: "Gnb_generate_new_back_off_time raw k g ch = Inr (residue, ch')"
  then obtain b where
    b: "randint raw 0 (min (2 ^ k * (g_cw_min g + 1) - 1) (g_cw_max g)) = Inr b"
    by (auto simp: Gnb_generate_new_back_off_time_def Let_def min_def split: sum.splits)
  from randint_range[OF b]
  have rng: "0 \<le> b \<and> b \<le> min (2 ^ k * (g_cw_min g + 1) - 1) (g_cw_max g)" .
  from h b rng
  show "\<exists>b row c. 0 \<le> b \<and> b \<le> min (2 ^ k * (g_cw_min g + 1) - 1) (g_cw_max g)
         \<and> residue = b * observation_slot_duration (g_config_nr g)
         \<and> backoffs ch b = Some row \<and> row (n_of_stations ch) = Some c
         \<and> ch' = ch\<lparr>backoffs := (backoffs ch)(b \<mapsto> row(n_of_stations ch \<mapsto> c + 1))\<rparr>"
    by (auto simp: Gnb_generate_new_back_off_time_def Let_def min_def
             split: sum.splits option.splits if_splits)
next
  assume h: "0 \<le> min (2 ^ k * (s_cw_min s + 1) - 1) (s_cw_max s)
        \<and> (\<forall>b. 0 \<le> b \<and> b \<le> min (2 ^ k * (s_cw_min s + 1) - 1) (s_cw_max s) \<longrightarrow>
              (\<exists>row c. backoffs ch b = Some row \<and> row (n_of_stations ch) = Some c))"
  then obtain b where
    b: "randint raw 0 (min (2 ^ k * (s_cw_min s + 1) - 1) (s_cw_max s)) = Inr b"
    using randint_returns by blast
  from randint_range[OF b] h obtain row c where
    "backoffs ch b = Some row" "row (n_of_stations ch) = Some c" by blast
  with b show "\<exists>residue ch'. Station_generate_new_back_off_time raw k s ch = Inr (residue, ch')"
    by (simp add: Station_generate_new_back_off_time_def Let_def upper_limit_min)
next
  assume h: "0 \<le> min (2 ^ k * (g_cw_min g + 1) - 1) (g_cw_max g)
        \<and> (\<forall>b. 0 \<le> b \<and> b \<le> min (2 ^ k * (g_cw_min g + 1) - 1) (g_cw_max g) \<longrightarrow>
              (\<exists>row c. backoffs ch b = Some row \<and> row (n_of_stations ch) = Some c))"
  then obtain b where
    b: "randint raw 0 (min (2 ^ k * (g_cw_min g + 1) - 1) (g_cw_max g)) = Inr b"
    using randint_returns by blast
  from randint_range[OF b] h obtain row c where
    "backoffs ch b = Some row" "row (n_of_stations ch) = Some c" by blast
  with b show "\<exists>residue ch'. Gnb_generate_new_back_off_time raw k g ch = Inr (residue, ch')"
    by (simp add: Gnb_generate_new_back_off_time_def Let_def upper_limit_min)
qed

text \<open>
  In the example run, after two failures in a row the bound of the station is
  \<open>min (4 * 16 - 1) 63 = 63\<close>; the tally has the rows 0 to 63, so the draw returns, with
  a slot count of at most 63 and a residue of that many slots of 9 microseconds.
\<close>

theorem back_off_within_bounds_witness:
  "0 \<le> min (2 ^ 2 * (s_cw_min station_1 + 1) - 1) (s_cw_max station_1)
   \<and> min (2 ^ 2 * (s_cw_min station_1 + 1) - 1) (s_cw_max station_1) = 63
   \<and> backoffs channel_1 = backoffs_table 1 63 \<and> n_of_stations channel_1 = 1
   \<and> (\<exists>residue ch' b. Station_generate_new_back_off_time 100 2 station_1 channel_1
                         = Inr (residue, ch')
         \<and> 0 \<le> b \<and> b \<le> 63 \<and> residue = b * 9)"
proof -
  have u: "min (2 ^ 2 * (s_cw_min station_1 + 1) - 1) (s_cw_max station_1) = 63"
    by (simp add: example_defs Let_def)
  have t: "t_slot (s_times station_1) = 9"
    by (simp add: example_defs Let_def)
  have h1: "0 \<le> min (2 ^ 2 * (s_cw_min station_1 + 1) - 1) (s_cw_max station_1)"
    unfolding u by simp
  have h2: "\<forall>b. 0 \<le> b \<and> b \<le> min (2 ^ 2 * (s_cw_min station_1 + 1) - 1) (s_cw_max station_1) \<longrightarrow>
          (\<exists>row c. backoffs channel_1 b = Some row \<and> row (n_of_stations channel_1) = Some c)"
    unfolding u by (simp add: example_defs Let_def)
  from back_off_within_bounds [of 100 2 station_1 channel_1 gnb_1] h1 h2
  obtain residue ch' where
    r: "Station_generate_new_back_off_time 100 2 station_1 channel_1 = Inr (residue, ch')"
    by blast
  with back_off_within_bounds [of 100 2 station_1 channel_1 gnb_1]
  obtain b where "0 \<le> b" "b \<le> 63" "residue = b * 9"
    unfolding u t by blast
  moreover have "backoffs channel_1 = backoffs_table 1 63" "n_of_stations channel_1 = 1"
    by (simp_all add: channel_1_def Gnb_def Station_def Channel_def Let_def)
  ultimately show ?thesis using r h1 u by blast
qed

section \<open>The gap period\<close>

lemma sync_slot_advance_total:
  assumes "0 < d"
  shows "\<exists>t'. sync_slot_advance b t d = Some t' \<and> b < t' \<and> (\<exists>n. t' = t + int n * d)"
proof (induction "nat (b - t + 1)" arbitrary: t rule: less_induct)
  case less
  show ?case
  proof (cases "b \<ge> t")
    case True
    then have "nat (b - (t + d) + 1) < nat (b - t + 1)" using assms by linarith
    from less[OF this] obtain t' n where
      r: "sync_slot_advance b (t + d) d = Some t'" "b < t'" "t' = t + d + int n * d" by blast
    have t': "t' = t + int (Suc n) * d" using r(3) by (simp add: algebra_simps)
    have eq: "sync_slot_advance b t d = sync_slot_advance b (t + d) d"
      using True by (subst sync_slot_advance.simps) simp
    show ?thesis
    proof (intro exI conjI)
      show "sync_slot_advance b t d = Some t'" using eq r(1) by simp
      show "b < t'" by (rule r(2))
      show "t' = t + int (Suc n) * d" by (rule t')
    qed
  next
    case False
    then have eq: "sync_slot_advance b t d = Some t"
      by (subst sync_slot_advance.simps) simp
    show ?thesis
    proof (intro exI conjI)
      show "sync_slot_advance b t d = Some t" by (rule eq)
      show "b < t" using False by simp
      show "t = t + int 0 * d" by simp
    qed
  qed
qed

text \<open>
  Claim C5. In gap mode, when the synchronization slot duration is positive and the
  backoff is not negative, the loop that moves the target synchronization slot forward
  terminates: the segment of \<^verbatim>\<open>wait_back_off_gap\<close> returns. It returns a gap period,
  not the failed assertion. The gap period is
  \<open>time_to_next_sync_slot - back_off_time \<ge> 0\<close> for the value of
  \<open>time_to_next_sync_slot\<close> at the exit of the loop, which is the distance to the next
  boundary plus a whole number of slot durations; nothing else of the gNB changes.
\<close>

theorem gap_time_nonnegative:
  assumes "0 < synchronization_slot_duration (g_config_nr g)"
    and "0 \<le> g_back_off_time g"
  shows "\<exists>gap_time g'. wait_back_off_gap_period now g = Some (Inr (gap_time, g'))
           \<and> 0 \<le> gap_time
           \<and> gap_time = time_to_next_sync_slot g' - g_back_off_time g
           \<and> (\<exists>n. time_to_next_sync_slot g' = next_sync_slot_boundry g - now
                     + int n * synchronization_slot_duration (g_config_nr g))
           \<and> g' = g\<lparr>time_to_next_sync_slot := time_to_next_sync_slot g'\<rparr>"
proof -
  from sync_slot_advance_total[OF assms(1)] obtain t' n where
    r: "sync_slot_advance (g_back_off_time g) (next_sync_slot_boundry g - now)
          (synchronization_slot_duration (g_config_nr g)) = Some t'"
       "g_back_off_time g < t'"
       "t' = next_sync_slot_boundry g - now + int n * synchronization_slot_duration (g_config_nr g)"
    by blast
  show ?thesis
    using r by (auto simp: wait_back_off_gap_period_def Let_def)
qed

text \<open>
  A gNB of the example run with a backoff of 367 microseconds, whose next boundary is at
  250, is granted the channel at time 100: the boundary 150 microseconds ahead is too
  close, the next one is 1150 ahead, and the gap period is 783.
\<close>

theorem gap_time_nonnegative_witness:
  "0 < synchronization_slot_duration
         (g_config_nr (gnb_1\<lparr>g_back_off_time := 367, next_sync_slot_boundry := 250\<rparr>))
   \<and> 0 \<le> g_back_off_time (gnb_1\<lparr>g_back_off_time := 367, next_sync_slot_boundry := 250\<rparr>)
   \<and> wait_back_off_gap_period 100 (gnb_1\<lparr>g_back_off_time := 367, next_sync_slot_boundry := 250\<rparr>)
       = Some (Inr (783, gnb_1\<lparr>g_back_off_time := 367, next_sync_slot_boundry := 250,
                                time_to_next_sync_slot := 1150\<rparr>))
   \<and> (\<exists>gap_time g'.
         wait_back_off_gap_period 100 (gnb_1\<lparr>g_back_off_time := 367, next_sync_slot_boundry := 250\<rparr>)
           = Some (Inr (gap_time, g')) \<and> 0 \<le> gap_time)"
proof -
  let ?g = "gnb_1\<lparr>g_back_off_time := 367, next_sync_slot_boundry := 250\<rparr>"
  have h1: "0 < synchronization_slot_duration (g_config_nr ?g)"
    by (simp add: example_defs)
  have h2: "0 \<le> g_back_off_time ?g" by simp
  have a: "sync_slot_advance 367 150 1000 = Some 1150"
    by (simp add: sync_slot_advance.simps)
  have v: "wait_back_off_gap_period 100 ?g
             = Some (Inr (783, ?g\<lparr>time_to_next_sync_slot := 1150\<rparr>))"
    by (simp add: wait_back_off_gap_period_def Let_def a example_defs)
  from gap_time_nonnegative [OF h1 h2, of 100] h1 h2 v show ?thesis by simp
qed

section \<open>The retry limit of NR-U\<close>

lemmas retried_defs = gnb_1_retried_def station_1_retried_def

text \<open>
  Claim C3. The retry limit of NR-U is that of Wi-Fi with \<open>r_limit = 7\<close>. When a
  collision raises the count of retransmissions of the gNB's current transmission above
  7, \<^verbatim>\<open>Gnb.sent_failed\<close> resets the counter of failures in a row to 0; when the count
  stays at or below 7, the counter of failures in a row is incremented and kept. The
  next attempt uses a fresh transmission: the first segment of \<^verbatim>\<open>send_transmission\<close>
  creates one, with no retransmission. \<^verbatim>\<open>Station.sent_failed\<close> with \<open>r_limit = 7\<close> does
  the same for a frame with the same count and a station with the same counter: it
  leaves the same counter of failures in a row, and it replaces the frame by a fresh one
  exactly when the count has risen above 7.
\<close>

theorem gnb_retry_limit_as_station:
  assumes "transmission_to_send g = Some t"
  shows "\<exists>g' ch'. Gnb_sent_failed g ch = Inr (g', ch')
     \<and> map_option t_number_of_retransmissions (transmission_to_send g')
         = Some (t_number_of_retransmissions t + 1)
     \<and> (7 < t_number_of_retransmissions t + 1 \<longrightarrow> g_failed_transmissions_in_row g' = 0)
     \<and> (t_number_of_retransmissions t + 1 \<le> 7 \<longrightarrow>
           g_failed_transmissions_in_row g' = g_failed_transmissions_in_row g + 1)
     \<and> map_option t_number_of_retransmissions
           (transmission_to_send (fst (send_transmission_start gap now g' ch'))) = Some 0
     \<and> (\<forall>s f. frame_to_send s = Some f \<and> r_limit (s_config s) = 7
            \<and> f_number_of_retransmissions f = t_number_of_retransmissions t
            \<and> s_failed_transmissions_in_row s = g_failed_transmissions_in_row g \<longrightarrow>
          (\<exists>s' ch2. Station_sent_failed now s ch = Inr (s', ch2)
             \<and> s_failed_transmissions_in_row s' = g_failed_transmissions_in_row g'
             \<and> (7 < f_number_of_retransmissions f + 1 \<longrightarrow>
                   frame_to_send s' = Some (Station_generate_new_frame now s'))
             \<and> (f_number_of_retransmissions f + 1 \<le> 7 \<longrightarrow>
                   frame_to_send s'
                     = Some (f\<lparr>f_number_of_retransmissions
                                 := f_number_of_retransmissions f + 1\<rparr>))))"
proof -
  let ?t1 = "t\<lparr>t_number_of_retransmissions := t_number_of_retransmissions t + 1\<rparr>"
  let ?g1 = "g\<lparr>transmission_to_send := Some ?t1,
               g_failed_transmissions := g_failed_transmissions g + 1,
               g_failed_transmissions_in_row := g_failed_transmissions_in_row g + 1\<rparr>"
  let ?g' = "if 7 < t_number_of_retransmissions t + 1
             then ?g1\<lparr>g_failed_transmissions_in_row := 0\<rparr> else ?g1"
  let ?ch' = "ch\<lparr>failed_transmissions_NR := failed_transmissions_NR ch + 1\<rparr>"
  have r: "Gnb_sent_failed g ch = Inr (?g', ?ch')"
    using assms by (simp add: Gnb_sent_failed_def Let_def)
  have c: "map_option t_number_of_retransmissions (transmission_to_send ?g')
             = Some (t_number_of_retransmissions t + 1)"
    by simp
  have hi: "7 < t_number_of_retransmissions t + 1 \<longrightarrow> g_failed_transmissions_in_row ?g' = 0"
    by simp
  have lo: "t_number_of_retransmissions t + 1 \<le> 7 \<longrightarrow>
              g_failed_transmissions_in_row ?g' = g_failed_transmissions_in_row g + 1"
    by simp
  have fresh: "map_option t_number_of_retransmissions
                 (transmission_to_send (fst (send_transmission_start gap now ?g' ?ch'))) = Some 0"
    by (simp add: send_transmission_start_def gen_new_transmission_def Let_def)
  have st: "\<forall>s f. frame_to_send s = Some f \<and> r_limit (s_config s) = 7
            \<and> f_number_of_retransmissions f = t_number_of_retransmissions t
            \<and> s_failed_transmissions_in_row s = g_failed_transmissions_in_row g \<longrightarrow>
          (\<exists>s' ch2. Station_sent_failed now s ch = Inr (s', ch2)
             \<and> s_failed_transmissions_in_row s' = g_failed_transmissions_in_row ?g'
             \<and> (7 < f_number_of_retransmissions f + 1 \<longrightarrow>
                   frame_to_send s' = Some (Station_generate_new_frame now s'))
             \<and> (f_number_of_retransmissions f + 1 \<le> 7 \<longrightarrow>
                   frame_to_send s'
                     = Some (f\<lparr>f_number_of_retransmissions
                                 := f_number_of_retransmissions f + 1\<rparr>)))"
    by (auto simp: Station_sent_failed_def Station_generate_new_frame_def Let_def)
  from r c hi lo fresh st show ?thesis by blast
qed

text \<open>
  In the example run: a gNB whose transmission has collided seven times is back at zero
  failures in a row after the eighth collision, and so is a station in the same
  position, with a fresh frame; a gNB after its first collision stands at one failure in
  a row. The next transmission of the gNB counts no retransmission.
\<close>

theorem gnb_retry_limit_as_station_witness:
  "transmission_to_send gnb_1_retried
     = Some ((gen_new_transmission True 0 gnb_1)\<lparr>t_number_of_retransmissions := 7\<rparr>)
   \<and> transmission_to_send gnb_1_sending = Some (gen_new_transmission True 0 gnb_1_sending)
   \<and> frame_to_send station_1_retried
       = Some ((Station_generate_new_frame 0 station_1)\<lparr>f_number_of_retransmissions := 7\<rparr>)
   \<and> r_limit (s_config station_1_retried) = 7
   \<and> s_failed_transmissions_in_row station_1_retried
       = g_failed_transmissions_in_row gnb_1_retried
   \<and> (\<exists>g' ch'. Gnb_sent_failed gnb_1_retried channel_1_both = Inr (g', ch')
         \<and> map_option t_number_of_retransmissions (transmission_to_send g') = Some 8
         \<and> g_failed_transmissions_in_row g' = 0
         \<and> map_option t_number_of_retransmissions
              (transmission_to_send (fst (send_transmission_start True 10000 g' ch'))) = Some 0
         \<and> (\<exists>s' ch2. Station_sent_failed 10000 station_1_retried channel_1_both = Inr (s', ch2)
               \<and> s_failed_transmissions_in_row s' = 0
               \<and> frame_to_send s' = Some (Station_generate_new_frame 10000 s')))
   \<and> (\<exists>g' ch'. Gnb_sent_failed gnb_1_sending channel_1_both = Inr (g', ch')
         \<and> map_option t_number_of_retransmissions (transmission_to_send g') = Some 1
         \<and> g_failed_transmissions_in_row g' = 1)"
proof -
  let ?t = "(gen_new_transmission True 0 gnb_1)\<lparr>t_number_of_retransmissions := 7\<rparr>"
  let ?f = "(Station_generate_new_frame 0 station_1)\<lparr>f_number_of_retransmissions := 7\<rparr>"
  have h1: "transmission_to_send gnb_1_retried = Some ?t"
    by (simp add: retried_defs)
  have h2: "transmission_to_send gnb_1_sending = Some (gen_new_transmission True 0 gnb_1_sending)"
    by (simp add: gnb_1_sending_def send_transmission_start_def gen_new_transmission_def Let_def)
  have s1: "frame_to_send station_1_retried = Some ?f"
    by (simp add: retried_defs)
  have s2: "r_limit (s_config station_1_retried) = 7"
    by (simp add: retried_defs example_defs Let_def)
  have s3: "f_number_of_retransmissions ?f = t_number_of_retransmissions ?t" by simp
  have s4: "s_failed_transmissions_in_row station_1_retried
              = g_failed_transmissions_in_row gnb_1_retried"
    by (simp add: retried_defs)
  have v: "t_number_of_retransmissions ?t = 7"
    "t_number_of_retransmissions (gen_new_transmission True 0 gnb_1_sending) = 0"
    "g_failed_transmissions_in_row gnb_1_sending = 0"
    by (simp_all add: gen_new_transmission_def Let_def gnb_1_sending_def
        send_transmission_start_def example_defs)
  from gnb_retry_limit_as_station [OF h1, where ch = channel_1_both and gap = True
      and now = 10000]
  obtain g' ch' where
    a: "Gnb_sent_failed gnb_1_retried channel_1_both = Inr (g', ch')"
       "map_option t_number_of_retransmissions (transmission_to_send g') = Some 8"
       "g_failed_transmissions_in_row g' = 0"
       "map_option t_number_of_retransmissions
          (transmission_to_send (fst (send_transmission_start True 10000 g' ch'))) = Some 0"
    and b: "\<forall>s f. frame_to_send s = Some f \<and> r_limit (s_config s) = 7
            \<and> f_number_of_retransmissions f = t_number_of_retransmissions ?t
            \<and> s_failed_transmissions_in_row s = g_failed_transmissions_in_row gnb_1_retried \<longrightarrow>
          (\<exists>s' ch2. Station_sent_failed 10000 s channel_1_both = Inr (s', ch2)
             \<and> s_failed_transmissions_in_row s' = g_failed_transmissions_in_row g'
             \<and> (7 < f_number_of_retransmissions f + 1 \<longrightarrow>
                   frame_to_send s' = Some (Station_generate_new_frame 10000 s'))
             \<and> (f_number_of_retransmissions f + 1 \<le> 7 \<longrightarrow>
                   frame_to_send s'
                     = Some (f\<lparr>f_number_of_retransmissions
                                 := f_number_of_retransmissions f + 1\<rparr>)))"
    unfolding v by auto
  from b s1 s2 s3 s4 obtain s' ch2 where
    c: "Station_sent_failed 10000 station_1_retried channel_1_both = Inr (s', ch2)"
       "s_failed_transmissions_in_row s' = g_failed_transmissions_in_row g'"
       "7 < f_number_of_retransmissions ?f + 1 \<longrightarrow>
          frame_to_send s' = Some (Station_generate_new_frame 10000 s')"
    by blast
  from c a(3) have c': "s_failed_transmissions_in_row s' = 0"
    "frame_to_send s' = Some (Station_generate_new_frame 10000 s')" by simp_all
  from gnb_retry_limit_as_station [OF h2, where ch = channel_1_both and gap = True
      and now = 10000]
  obtain g2 ch3 where
    d: "Gnb_sent_failed gnb_1_sending channel_1_both = Inr (g2, ch3)"
       "map_option t_number_of_retransmissions (transmission_to_send g2) = Some 1"
       "g_failed_transmissions_in_row g2 = 1"
    unfolding v by auto
  from h1 h2 s1 s2 s4 a c(1) c' d show ?thesis by blast
qed

text \<open>
  In a run, the first segment of \<^verbatim>\<open>send_transmission\<close> creates the transmission anew on
  every attempt, so the count that \<^verbatim>\<open>sent_failed\<close> compares with 7 is 1 after every
  collision: over any number of attempts that all collide, the gNB's counter of failures
  in a row grows by one per attempt, while the station, which keeps its frame across
  attempts, drops it at the eighth collision.
\<close>

lemma gnb_failures_in_row_over_attempts:
  "collided_attempts gap ts s g ch = Inr (s', g', ch') \<Longrightarrow>
     g_failed_transmissions_in_row g' = g_failed_transmissions_in_row g + length ts"
proof (induction ts arbitrary: s g ch)
  case Nil
  then show ?case by simp
next
  case (Cons now ts)
  from Cons.prems obtain s2 g2 ch4 where
    step: "collided_attempts gap ts s2 g2 ch4 = Inr (s', g', ch')"
    and g2: "g_failed_transmissions_in_row g2 = g_failed_transmissions_in_row g + 1"
    by (auto simp: collision_defs start_defs attempt_defs Let_def
             split: option.splits sum.splits if_splits prod.splits)
  from Cons.IH[OF step] g2 show ?case by simp
qed

lemma eight_collided_attempts:
  "\<exists>s' g' ch'.
     collided_attempts True [0, 10000, 20000, 30000, 40000, 50000, 60000, 70000]
       station_1 gnb_1 channel_1 = Inr (s', g', ch')
     \<and> s_failed_transmissions_in_row s' = 0
     \<and> map_option f_number_of_retransmissions (frame_to_send s') = Some 0
     \<and> g_failed_transmissions_in_row g' = 8
     \<and> map_option t_number_of_retransmissions (transmission_to_send g') = Some 1
     \<and> failed_transmissions ch' = 8 \<and> failed_transmissions_NR ch' = 8"
  by (simp add: example_defs collision_defs start_defs attempt_defs Let_def)

section \<open>The controller under imbalance\<close>





section \<open>The invariant of the adjustment operations\<close>

text \<open>
  Claim C10, as stated, assumes only that \<open>cw_min\<close> started within
  \<open>[min_cw, max_cw]\<close>. It fails for a controller with a negative \<open>adjustment_step\<close>: with
  a step of \<open>-10\<close> and \<open>cw_min = 15\<close> within \<open>[7, 511]\<close>, \<^verbatim>\<open>_increase_wifi_cw\<close> leaves
  \<open>cw_min = 5\<close>, below \<open>min_cw\<close>.
\<close>

theorem cw_min_leaves_range_by_negative_step:
  "min_cw (controller_1\<lparr>adjustment_step := - 10\<rparr>)
      \<le> cw_min (wifi_config (controller_1\<lparr>adjustment_step := - 10\<rparr>))
   \<and> cw_min (wifi_config (controller_1\<lparr>adjustment_step := - 10\<rparr>))
      \<le> max_cw (controller_1\<lparr>adjustment_step := - 10\<rparr>)
   \<and> cw_min (wifi_config (increase_wifi_cw (controller_1\<lparr>adjustment_step := - 10\<rparr>))) = 5
   \<and> \<not> (min_cw (increase_wifi_cw (controller_1\<lparr>adjustment_step := - 10\<rparr>))
          \<le> cw_min (wifi_config (increase_wifi_cw (controller_1\<lparr>adjustment_step := - 10\<rparr>))))"
  by (simp add: example_defs controller_defs cw_defs Let_def)

text \<open>
  Claim C10, amended: for a controller whose \<open>adjustment_step\<close> is not negative, each of
  the four adjustment operations keeps the invariant. If \<open>cw_min\<close> of the configuration
  it adjusts started within \<open>[min_cw, max_cw]\<close>, then afterwards that \<open>cw_min\<close> is within
  \<open>[min_cw, max_cw]\<close>, the \<open>cw_max\<close> of the configuration is \<open>min (4 * cw_min) max_cw\<close>,
  and every station (for the Wi-Fi operations) or gNB (for the NR-U operations) in the
  channel's registry has the \<open>cw_min\<close> and \<open>cw_max\<close> of the configuration.
\<close>

theorem cw_adjustment_keeps_invariant:
  assumes step: "0 \<le> adjustment_step c"
  shows "(min_cw c \<le> cw_min (wifi_config c) \<and> cw_min (wifi_config c) \<le> max_cw c \<longrightarrow>
          (\<forall>c' \<in> {increase_wifi_cw c, decrease_wifi_cw c}.
             min_cw c' \<le> cw_min (wifi_config c') \<and> cw_min (wifi_config c') \<le> max_cw c'
           \<and> cw_max (wifi_config c') = min (4 * cw_min (wifi_config c')) (max_cw c')
           \<and> (\<forall>name st. stations (c_channel c') name = Some st \<longrightarrow>
                  s_cw_min st = cw_min (wifi_config c')
                  \<and> s_cw_max st = cw_max (wifi_config c'))))
       \<and> (min_cw c \<le> nr_cw_min (nru_config c) \<and> nr_cw_min (nru_config c) \<le> max_cw c \<longrightarrow>
          (\<forall>c' \<in> {increase_nru_cw c, decrease_nru_cw c}.
             min_cw c' \<le> nr_cw_min (nru_config c') \<and> nr_cw_min (nru_config c') \<le> max_cw c'
           \<and> nr_cw_max (nru_config c') = min (4 * nr_cw_min (nru_config c')) (max_cw c')
           \<and> (\<forall>name gn. gnbs (c_channel c') name = Some gn \<longrightarrow>
                  g_cw_min gn = nr_cw_min (nru_config c')
                  \<and> g_cw_max gn = nr_cw_max (nru_config c'))))"
  using step by (auto simp: cw_defs Let_def mult.commute)

text \<open>
  The controller of the example run: both configurations start at \<open>cw_min = 15\<close> within
  \<open>[7, 511]\<close>; after \<^verbatim>\<open>_increase_wifi_cw\<close> the Wi-Fi windows are 20 and 80 and the
  registered station has them, and after \<^verbatim>\<open>_decrease_nru_cw\<close> the NR-U windows are 10 and
  40 and the registered gNB has them.
\<close>

theorem cw_adjustment_keeps_invariant_witness:
  "0 \<le> adjustment_step controller_1
   \<and> min_cw controller_1 \<le> cw_min (wifi_config controller_1)
   \<and> cw_min (wifi_config controller_1) \<le> max_cw controller_1
   \<and> min_cw controller_1 \<le> nr_cw_min (nru_config controller_1)
   \<and> nr_cw_min (nru_config controller_1) \<le> max_cw controller_1
   \<and> cw_min (wifi_config (increase_wifi_cw controller_1)) = 20
   \<and> cw_max (wifi_config (increase_wifi_cw controller_1)) = 80
   \<and> nr_cw_min (nru_config (decrease_nru_cw controller_1)) = 10
   \<and> nr_cw_max (nru_config (decrease_nru_cw controller_1)) = 40
   \<and> (\<exists>st. stations (c_channel (increase_wifi_cw controller_1)) ''Station 1'' = Some st
          \<and> s_cw_min st = 20 \<and> s_cw_max st = 80)
   \<and> (\<exists>gn. gnbs (c_channel (decrease_nru_cw controller_1)) ''Gnb 1'' = Some gn
          \<and> g_cw_min gn = 10 \<and> g_cw_max gn = 40)"
proof -
  have h: "0 \<le> adjustment_step controller_1" by (simp add: example_defs controller_defs)
  have r: "min_cw controller_1 \<le> cw_min (wifi_config controller_1)"
    "cw_min (wifi_config controller_1) \<le> max_cw controller_1"
    "min_cw controller_1 \<le> nr_cw_min (nru_config controller_1)"
    "nr_cw_min (nru_config controller_1) \<le> max_cw controller_1"
    by (simp_all add: example_defs controller_defs)
  have v: "cw_min (wifi_config (increase_wifi_cw controller_1)) = 20"
    "nr_cw_min (nru_config (decrease_nru_cw controller_1)) = 10"
    "max_cw (increase_wifi_cw controller_1) = 511"
    "max_cw (decrease_nru_cw controller_1) = 511"
    by (simp_all add: example_defs controller_defs cw_defs Let_def)
  obtain st gn where
    e: "stations (c_channel (increase_wifi_cw controller_1)) ''Station 1'' = Some st"
       "gnbs (c_channel (decrease_nru_cw controller_1)) ''Gnb 1'' = Some gn"
    by (simp add: example_defs controller_defs cw_defs Let_def)
  from cw_adjustment_keeps_invariant [OF h] r
  have w: "cw_max (wifi_config (increase_wifi_cw controller_1))
             = min (4 * cw_min (wifi_config (increase_wifi_cw controller_1)))
                 (max_cw (increase_wifi_cw controller_1))"
    "s_cw_min st = cw_min (wifi_config (increase_wifi_cw controller_1))"
    "s_cw_max st = cw_max (wifi_config (increase_wifi_cw controller_1))"
    "nr_cw_max (nru_config (decrease_nru_cw controller_1))
             = min (4 * nr_cw_min (nru_config (decrease_nru_cw controller_1)))
                 (max_cw (decrease_nru_cw controller_1))"
    "g_cw_min gn = nr_cw_min (nru_config (decrease_nru_cw controller_1))"
    "g_cw_max gn = nr_cw_max (nru_config (decrease_nru_cw controller_1))"
    using e by blast+
  from h r v w e show ?thesis by simp
qed

section \<open>The collision probability\<close>

text \<open>
  Claim C8. At the end of every run the collision probability of a technology is
  computed without error: it is \<open>failed / (failed + succeeded)\<close> when that sum is not
  zero and 0 when it is zero, so no division by zero happens. A technology without nodes
  has both counters at zero (only the methods of its nodes change them), which is the
  premise here; the probability is then 0.
\<close>

theorem p_coll_value:
  assumes "number_of_stations = 0 \<longrightarrow> failed_transmissions ch + succeeded_transmissions ch = 0"
    and "number_of_gnb = 0 \<longrightarrow> failed_transmissions_NR ch + succeeded_transmissions_NR ch = 0"
  shows "p_coll number_of_stations ch =
           Inr (if failed_transmissions ch + succeeded_transmissions ch \<noteq> 0
                then real (failed_transmissions ch)
                     / real (failed_transmissions ch + succeeded_transmissions ch)
                else 0)
       \<and> p_coll_NR number_of_gnb ch =
           Inr (if failed_transmissions_NR ch + succeeded_transmissions_NR ch \<noteq> 0
                then real (failed_transmissions_NR ch)
                     / real (failed_transmissions_NR ch + succeeded_transmissions_NR ch)
                else 0)"
  using assms by (auto simp: p_coll_def p_coll_NR_def py_truediv_def)

text \<open>
  A run with three stations and no gNB that ends with 1 failed and 3 succeeded Wi-Fi
  transmissions: the probabilities are \<open>1/4\<close> and 0.
\<close>

theorem p_coll_value_witness:
  "(3::int) \<noteq> 0
   \<and> failed_transmissions_NR (channel_1\<lparr>failed_transmissions := 1, succeeded_transmissions := 3\<rparr>)
      + succeeded_transmissions_NR (channel_1\<lparr>failed_transmissions := 1, succeeded_transmissions := 3\<rparr>) = 0
   \<and> p_coll 3 (channel_1\<lparr>failed_transmissions := 1, succeeded_transmissions := 3\<rparr>) = Inr (1 / 4)
   \<and> p_coll_NR 0 (channel_1\<lparr>failed_transmissions := 1, succeeded_transmissions := 3\<rparr>) = Inr 0"
proof -
  let ?ch = "channel_1\<lparr>failed_transmissions := 1, succeeded_transmissions := 3\<rparr>"
  have h1: "(3::int) = 0 \<longrightarrow> failed_transmissions ?ch + succeeded_transmissions ?ch = 0"
    by simp
  have z: "failed_transmissions_NR ?ch + succeeded_transmissions_NR ?ch = 0"
    by (simp add: example_defs Let_def)
  then have h2: "(0::int) = 0 \<longrightarrow> failed_transmissions_NR ?ch + succeeded_transmissions_NR ?ch = 0"
    by simp
  from p_coll_value [OF h1 h2] z h1 show ?thesis by simp
qed


end
